theory Spec2Isabelle
  imports Complex_Main "HOL-Library.Word"
begin

section \<open>The connection orchestrator of kiskord (src/hooks/useWebRTC.ts)\<close>

text \<open>
  The hook \<open>useWebRTC\<close> keeps its state in React refs and state cells and reacts to
  events: snapshots of the Firestore roster and of the three mailboxes of the local user,
  state changes of a peer connection, and timers. The model is a record of that state and
  one function per handler. A handler runs to its end before the next event is taken, and
  every value that the browser or the store decides (whether a description is accepted,
  whether the microphone is granted) is an argument of the handler. Deleting a document
  of a mailbox and writing the own roster entry are taken to succeed.

  Objects with identity (peer connections, media tracks) live in stores: a list indexed by
  the reference, to which a creation appends. The JavaScript object \<open>peerConnections.current\<close>
  is a map from participant id to such a reference; a lookup stands for a lookup of an own
  property of that object.
\<close>

subsection \<open>Strings and their order\<close>

type_synonym uid = string

text \<open>
  \<open>a < b\<close> on two JavaScript strings: the first position where the code units differ
  decides, and a proper prefix is smaller. Code units are the characters of \<open>string\<close>.
\<close>

fun js_string_lt :: "string \<Rightarrow> string \<Rightarrow> bool" where
  "js_string_lt [] [] = False"
| "js_string_lt [] (y # ys) = True"
| "js_string_lt (x # xs) [] = False"
| "js_string_lt (x # xs) (y # ys) =
     (if (of_char x :: nat) < of_char y then True
      else if (of_char y :: nat) < of_char x then False
      else js_string_lt xs ys)"

subsection \<open>Peer connections, tracks and documents\<close>

datatype signaling_state =
  Stable | HaveLocalOffer | HaveRemoteOffer | HaveLocalPranswer | HaveRemotePranswer | SigClosed

datatype connection_state = New | Connecting | Connected | Disconnected | Failed | Closed

type_synonym sdp = string
type_synonym candidate = string
type_synonym pc_ref = nat
type_synonym track_ref = nat

text \<open>A \<open>MediaStream\<close> is the list of its tracks.\<close>

type_synonym stream = "track_ref list"

datatype track_kind = Audio | Video

record media_track =
  kind :: track_kind
  enabled :: bool
  stopped :: bool

text \<open>
  An \<open>RTCPeerConnection\<close> made by \<open>createPeerConnection\<close>: \<open>target\<close> is the
  \<open>targetUserId\<close> that its callbacks have captured.
\<close>

record peer_connection =
  target :: uid
  signalingState :: signaling_state
  connectionState :: connection_state
  localDescription :: "sdp option"
  remoteDescription :: "sdp option"
  iceCandidates :: "candidate list"
  senders :: "track_ref list"

record participant_doc =
  displayName :: string
  isMutedDoc :: bool

record participant =
  pid :: uid
  pDisplayName :: string
  pIsMuted :: bool

text \<open>A document of a mailbox: \<open>from\<close> and the payload (\<open>sdp\<close> or \<open>candidate\<close>).\<close>

record signal_doc =
  sender :: uid
  payload :: string

datatype change_type = Added | Modified | Removed

record doc_change =
  ctype :: change_type
  doc_id :: string
  cdata :: signal_doc

datatype msg_kind = Offer | Answer | IceCandidate

text \<open>A document added to a mailbox of another participant.\<close>

record out_msg =
  mailbox_of :: uid
  mkind :: msg_kind
  mfrom :: uid
  mpayload :: string

datatype subscription = SubParticipants | SubOffers | SubAnswers | SubIce

datatype audio_node =
  Source | Destination | Analyser | MonitorGain | StereoPanner | Speakers
  | RNNoise | HighPass | Compressor

record user_info =
  uid_of :: uid
  userDisplayName :: string

record hook_state =
  roomId :: "string option"
  user :: "user_info option"
  peerConnections :: "uid \<rightharpoonup> pc_ref"
  pc_store :: "peer_connection list"
  track_store :: "media_track list"
  localStreamRef :: "stream option"
  isMuted :: bool
  participants :: "participant list"
  roster :: "uid \<rightharpoonup> participant_doc"
  incoming_offers :: "string \<rightharpoonup> signal_doc"
  incoming_answers :: "string \<rightharpoonup> signal_doc"
  incoming_ice :: "string \<rightharpoonup> signal_doc"
  sent :: "out_msg list"
  subscriptions :: "subscription set"
  timers :: "(nat \<times> pc_ref) list"
  now :: nat
  alerts :: "string list"
  joinStream :: "stream option"

subsection \<open>Creating a peer connection\<close>

text \<open>
  \<open>createPeerConnection(targetUserId, stream)\<close>: a new connection with the tracks of the
  stream, stored under the target id.
\<close>

definition new_pc :: "uid \<Rightarrow> stream \<Rightarrow> peer_connection" where
  "new_pc targetUserId str =
     \<lparr>target = targetUserId, signalingState = Stable, connectionState = New,
      localDescription = None, remoteDescription = None, iceCandidates = [],
      senders = str\<rparr>"

definition createPeerConnection :: "uid \<Rightarrow> stream \<Rightarrow> hook_state \<Rightarrow> pc_ref \<times> hook_state" where
  "createPeerConnection targetUserId str s =
     (let r = length (pc_store s)
      in (r, s\<lparr>pc_store := pc_store s @ [new_pc targetUserId str],
               peerConnections := (peerConnections s)(targetUserId \<mapsto> r)\<rparr>))"

text \<open>Updating the connection behind a reference; a dangling reference changes nothing.\<close>

definition update_pc :: "pc_ref \<Rightarrow> (peer_connection \<Rightarrow> peer_connection) \<Rightarrow> hook_state \<Rightarrow> hook_state" where
  "update_pc r f s =
     (if r < length (pc_store s) then s\<lparr>pc_store := (pc_store s)[r := f (pc_store s ! r)]\<rparr> else s)"

subsection \<open>The roster handler\<close>

text \<open>
  What the awaited calls of the initiating branch do: \<open>createOffer\<close>,
  \<open>setLocalDescription\<close> and \<open>addDoc\<close> may each reject, which ends the handler
  (it has no \<open>try\<close>).
\<close>

datatype offer_outcome =
  OfferPublished sdp | CreateOfferRejects | SetLocalRejects sdp | PublishRejects sdp

text \<open>
  The body of the loop over \<open>snapshot.docs\<close> after the push onto \<open>currentParticipants\<close>.
  The flag of the result is False when a rejected call has ended the handler.
\<close>

definition roster_doc ::
  "uid \<Rightarrow> stream \<Rightarrow> uid \<Rightarrow> offer_outcome \<Rightarrow> hook_state \<Rightarrow> bool \<times> hook_state" where
  "roster_doc self str did oc s =
     (if did \<noteq> self \<and> peerConnections s did = None then
        (if js_string_lt self did then
           (let (r, s1) = createPeerConnection did str s in
            case oc of
              CreateOfferRejects \<Rightarrow> (False, s1)
            | SetLocalRejects offer \<Rightarrow> (False, s1)
            | PublishRejects offer \<Rightarrow>
                (False, update_pc r (\<lambda>pc. pc\<lparr>localDescription := Some offer,
                                              signalingState := HaveLocalOffer\<rparr>) s1)
            | OfferPublished offer \<Rightarrow>
                (let s2 = update_pc r (\<lambda>pc. pc\<lparr>localDescription := Some offer,
                                                signalingState := HaveLocalOffer\<rparr>) s1
                 in (True, s2\<lparr>sent := sent s2 @
                       [\<lparr>mailbox_of = did, mkind = Offer, mfrom = self, mpayload = offer\<rparr>]\<rparr>)))
         else (True, s))
      else (True, s))"

text \<open>
  The handler of a roster snapshot: the documents in order, each with the outcome of the
  offer it may start; \<open>setParticipants\<close> is reached only when no call has rejected.
\<close>

fun roster_docs ::
  "uid \<Rightarrow> stream \<Rightarrow> (uid \<times> participant_doc \<times> offer_outcome) list \<Rightarrow> participant list
     \<Rightarrow> hook_state \<Rightarrow> hook_state" where
  "roster_docs self str [] currentParticipants s = s\<lparr>participants := currentParticipants\<rparr>"
| "roster_docs self str ((did, d, oc) # ds) currentParticipants s =
     (case roster_doc self str did oc s of
        (True, s') \<Rightarrow>
          roster_docs self str ds
            (currentParticipants @
               [\<lparr>pid = did, pDisplayName = displayName d, pIsMuted = isMutedDoc d\<rparr>]) s'
      | (False, s') \<Rightarrow> s')"

definition onRosterSnapshot ::
  "uid \<Rightarrow> stream \<Rightarrow> (uid \<times> participant_doc \<times> offer_outcome) list \<Rightarrow> hook_state \<Rightarrow> hook_state" where
  "onRosterSnapshot self str ds s = roster_docs self str ds [] s"


subsection \<open>The mailbox handlers\<close>

text \<open>
  The connection stored for an id, with its reference. A reference outside the store
  cannot arise in the program, where the map holds the object itself; it counts as absent.
\<close>

definition lookup_pc :: "hook_state \<Rightarrow> uid \<Rightarrow> (pc_ref \<times> peer_connection) option" where
  "lookup_pc s u =
     (case peerConnections s u of
        None \<Rightarrow> None
      | Some r \<Rightarrow> if r < length (pc_store s) then Some (r, pc_store s ! r) else None)"

text \<open>
  What the awaited calls of the answering side do; a rejection is caught and logged, and
  the changes made before it stay.
\<close>

datatype answer_outcome =
  AnswerPublished sdp | SetRemoteRejects | CreateAnswerRejects
  | SetLocalAnswerRejects sdp | PublishAnswerRejects sdp

definition have_remote_offer :: "sdp \<Rightarrow> peer_connection \<Rightarrow> peer_connection" where
  "have_remote_offer offer pc = pc\<lparr>remoteDescription := Some offer, signalingState := HaveRemoteOffer\<rparr>"

definition answered :: "sdp \<Rightarrow> sdp \<Rightarrow> peer_connection \<Rightarrow> peer_connection" where
  "answered offer answer pc =
     pc\<lparr>remoteDescription := Some offer, localDescription := Some answer, signalingState := Stable\<rparr>"

text \<open>The callback of the \<open>incoming_offers\<close> subscription, for one document change.\<close>

definition onOfferChange :: "uid \<Rightarrow> stream \<Rightarrow> doc_change \<Rightarrow> answer_outcome \<Rightarrow> hook_state \<Rightarrow> hook_state" where
  "onOfferChange self str ch oc s =
     (if ctype ch = Added then
        (let fromUserId = sender (cdata ch);
             offer = payload (cdata ch);
             s1 = (if peerConnections s fromUserId = None then
                     (let (r, s') = createPeerConnection fromUserId str s in
                      case oc of
                        SetRemoteRejects \<Rightarrow> s'
                      | CreateAnswerRejects \<Rightarrow> update_pc r (have_remote_offer offer) s'
                      | SetLocalAnswerRejects answer \<Rightarrow> update_pc r (have_remote_offer offer) s'
                      | PublishAnswerRejects answer \<Rightarrow> update_pc r (answered offer answer) s'
                      | AnswerPublished answer \<Rightarrow>
                          (let s2 = update_pc r (answered offer answer) s'
                           in s2\<lparr>sent := sent s2 @
                                [\<lparr>mailbox_of = fromUserId, mkind = Answer, mfrom = self,
                                  mpayload = answer\<rparr>]\<rparr>))
                   else s)
         in s1\<lparr>incoming_offers := (incoming_offers s1)(doc_id ch := None)\<rparr>)
      else s)"

text \<open>
  The callback of the \<open>incoming_answers\<close> subscription. \<open>accepted\<close> says whether the
  browser's \<open>setRemoteDescription\<close> resolves; a rejection is caught and logged.
\<close>

definition onAnswerChange :: "doc_change \<Rightarrow> bool \<Rightarrow> hook_state \<Rightarrow> hook_state" where
  "onAnswerChange ch accepted s =
     (if ctype ch = Added then
        (let fromUserId = sender (cdata ch);
             s1 = (case lookup_pc s fromUserId of
                     Some (r, pc) \<Rightarrow>
                       if signalingState pc = HaveLocalOffer then
                         (if accepted then
                            update_pc r (\<lambda>pc. pc\<lparr>remoteDescription := Some (payload (cdata ch)),
                                                    signalingState := Stable\<rparr>) s
                          else s)
                       else s
                   | None \<Rightarrow> s)
         in s1\<lparr>incoming_answers := (incoming_answers s1)(doc_id ch := None)\<rparr>)
      else s)"

text \<open>
  The callback of the \<open>incoming_ice\<close> subscription. \<open>accepted\<close> says whether the
  browser's \<open>addIceCandidate\<close> resolves.
\<close>

definition onIceChange :: "doc_change \<Rightarrow> bool \<Rightarrow> hook_state \<Rightarrow> hook_state" where
  "onIceChange ch accepted s =
     (if ctype ch = Added then
        (let fromUserId = sender (cdata ch);
             s1 = (case lookup_pc s fromUserId of
                     Some (r, pc) \<Rightarrow>
                       if remoteDescription pc \<noteq> None then
                         (if accepted then
                            update_pc r (\<lambda>pc. pc\<lparr>iceCandidates :=
                                                      iceCandidates pc @ [payload (cdata ch)]\<rparr>) s
                          else s)
                       else s
                   | None \<Rightarrow> s)
         in s1\<lparr>incoming_ice := (incoming_ice s1)(doc_id ch := None)\<rparr>)
      else s)"

subsection \<open>Connectivity changes and the grace timer\<close>

text \<open>\<open>pc.close()\<close>.\<close>

definition close_pc :: "peer_connection \<Rightarrow> peer_connection" where
  "close_pc pc = pc\<lparr>connectionState := Closed, signalingState := SigClosed\<rparr>"

text \<open>The callback that \<open>setTimeout\<close> runs for the connection \<open>r\<close>.\<close>

definition grace_timeout :: "pc_ref \<Rightarrow> hook_state \<Rightarrow> hook_state" where
  "grace_timeout r s =
     (if r < length (pc_store s) \<and> connectionState (pc_store s ! r) = Failed then
        (let s1 = update_pc r close_pc s
         in s1\<lparr>peerConnections := (peerConnections s1)(target (pc_store s ! r) := None)\<rparr>)
      else s)"

text \<open>\<open>pc.onconnectionstatechange\<close>; the clock counts milliseconds.\<close>

definition onconnectionstatechange :: "pc_ref \<Rightarrow> hook_state \<Rightarrow> hook_state" where
  "onconnectionstatechange r s =
     (if r < length (pc_store s) then
        (case connectionState (pc_store s ! r) of
           Connected \<Rightarrow> s
         | Failed \<Rightarrow> s\<lparr>timers := timers s @ [(now s + 3000, r)]\<rparr>
         | Disconnected \<Rightarrow> s
         | _ \<Rightarrow> s)
      else s)"

text \<open>
  The browser moves an open connection to another state and calls the handler. A closed
  connection never changes again, and only \<open>close()\<close> closes one.
\<close>

definition connection_state_event :: "pc_ref \<Rightarrow> connection_state \<Rightarrow> hook_state \<Rightarrow> hook_state" where
  "connection_state_event r st s =
     (if r < length (pc_store s) \<and> connectionState (pc_store s ! r) \<noteq> Closed \<and> st \<noteq> Closed then
        onconnectionstatechange r (update_pc r (\<lambda>pc. pc\<lparr>connectionState := st\<rparr>) s)
      else s)"

text \<open>
  Time passes: the pending timers whose time has come run in the order in which they were
  set, the others stay pending.
\<close>

fun fire_due :: "nat \<Rightarrow> (nat \<times> pc_ref) list \<Rightarrow> hook_state \<Rightarrow> hook_state" where
  "fire_due t [] s = s"
| "fire_due t ((due, r) # ts) s =
     (if due \<le> t then fire_due t ts (grace_timeout r s)
      else fire_due t ts (s\<lparr>timers := timers s @ [(due, r)]\<rparr>))"

definition elapse :: "nat \<Rightarrow> hook_state \<Rightarrow> hook_state" where
  "elapse d s = fire_due (now s + d) (timers s) (s\<lparr>now := now s + d, timers := []\<rparr>)"

subsection \<open>Joining, leaving and muting\<close>

datatype audio_quality = Basic | Balanced | Professional | Ultra

text \<open>
  The fields of \<open>AudioProcessingOptions\<close> that choose the audio graph. A field that may
  be left out is an option; \<open>useRNNoise\<close> is read for its truth value only.
\<close>

record audio_options =
  useRNNoise :: bool
  audioQuality :: "audio_quality option"
  highPassFilter :: "bool option"

text \<open>
  What the browser decides while \<open>initLocalStream\<close> runs: whether \<open>getUserMedia\<close>
  resolves, whether the \<open>AudioWorkletNode\<close> of the noise suppressor can be made, whether
  the stream of the destination node has an audio track, and whether the professional
  chain has a high-pass stage.
\<close>

record audio_env =
  micGranted :: bool
  workletNodeOk :: bool
  destinationTrack :: bool
  chainHighPass :: bool

definition mic_alert :: string where
  "mic_alert = ''Microphone permission denied. Please enable it to join the voice chat.''"

definition live_audio_track :: media_track where
  "live_audio_track = \<lparr>kind = Audio, enabled = True, stopped = False\<rparr>"

text \<open>
  \<open>initLocalStream\<close> on the state of the hook: a rejected \<open>getUserMedia\<close> is caught,
  reported with \<open>alert\<close> and answered with \<open>null\<close>. Otherwise the microphone track and,
  when there is one, the track of the destination node are new tracks, and the stream
  handed back holds the destination track, or else the microphone track. The audio nodes
  it connects are the subject of \<open>audio_graph\<close> below.
\<close>

definition initLocalStream :: "audio_env \<Rightarrow> hook_state \<Rightarrow> stream option \<times> hook_state" where
  "initLocalStream env s =
     (if \<not> micGranted env then (None, s\<lparr>alerts := alerts s @ [mic_alert]\<rparr>)
      else
        (let mic = length (track_store s);
             s1 = s\<lparr>track_store := track_store s @ [live_audio_track], localStreamRef := Some [mic]\<rparr>
         in if destinationTrack env then
              (Some [Suc mic],
               s1\<lparr>track_store := track_store s1 @ [live_audio_track],
                  localStreamRef := Some [Suc mic]\<rparr>)
            else (Some [mic], s1)))"

text \<open>A string that may be \<open>null\<close>, read as a condition: \<open>null\<close> and the empty string are false.\<close>

definition truthy :: "string option \<Rightarrow> bool" where
  "truthy x = (case x of None \<Rightarrow> False | Some v \<Rightarrow> v \<noteq> [])"

text \<open>
  \<open>join\<close>, the body of the effect: without a stream it returns at once; otherwise it
  publishes the own roster entry and makes the four subscriptions, whose callbacks keep
  the stream.
\<close>

definition join :: "string \<Rightarrow> user_info \<Rightarrow> audio_env \<Rightarrow> hook_state \<Rightarrow> hook_state" where
  "join rid u env s =
     (case initLocalStream env s of
        (None, s1) \<Rightarrow> s1
      | (Some str, s1) \<Rightarrow>
          s1\<lparr>roster := (roster s1)(uid_of u \<mapsto> \<lparr>displayName = userDisplayName u, isMutedDoc = False\<rparr>),
             subscriptions := {SubParticipants, SubOffers, SubAnswers, SubIce},
             joinStream := Some str\<rparr>)"

definition joinEffect :: "audio_env \<Rightarrow> hook_state \<Rightarrow> hook_state" where
  "joinEffect env s =
     (case user s of
        None \<Rightarrow> s
      | Some u \<Rightarrow> if truthy (roomId s) then join (the (roomId s)) u env s else s)"

text \<open>
  The cleanup of the effect, as far as it touches the state of the model: the tracks of
  the local stream stop, every connection of the map is closed and the map emptied, the
  own roster entry is deleted, the subscriptions end. (Audio elements and audio nodes are
  not part of the model.)
\<close>

definition stop_tracks :: "stream \<Rightarrow> media_track list \<Rightarrow> media_track list" where
  "stop_tracks str ts =
     map (\<lambda>(i, t). if i \<in> set str then t\<lparr>stopped := True\<rparr> else t) (enumerate 0 ts)"

definition close_all :: "(uid \<rightharpoonup> pc_ref) \<Rightarrow> peer_connection list \<Rightarrow> peer_connection list" where
  "close_all m pcs =
     map (\<lambda>(i, pc). if i \<in> ran m then close_pc pc else pc) (enumerate 0 pcs)"

definition cleanup :: "hook_state \<Rightarrow> hook_state" where
  "cleanup s =
     (let s1 = (case localStreamRef s of
                  None \<Rightarrow> s
                | Some str \<Rightarrow> s\<lparr>track_store := stop_tracks str (track_store s)\<rparr>);
          s2 = s1\<lparr>pc_store := close_all (peerConnections s1) (pc_store s1),
                  peerConnections := Map.empty\<rparr>;
          s3 = (case user s2 of
                  None \<Rightarrow> s2
                | Some u \<Rightarrow> if truthy (roomId s2) then s2\<lparr>roster := (roster s2)(uid_of u := None)\<rparr>
                            else s2)
      in s3\<lparr>subscriptions := {}\<rparr>)"

text \<open>\<open>stream.getAudioTracks()\<close>.\<close>

definition getAudioTracks :: "media_track list \<Rightarrow> stream \<Rightarrow> track_ref list" where
  "getAudioTracks ts str = filter (\<lambda>t. t < length ts \<and> kind (ts ! t) = Audio) str"

text \<open>\<open>updateDoc\<close> on the own roster entry: the store rejects it when there is no entry.\<close>

definition updateIsMuted :: "uid \<Rightarrow> bool \<Rightarrow> (uid \<rightharpoonup> participant_doc) \<Rightarrow> (uid \<rightharpoonup> participant_doc)" where
  "updateIsMuted u m ro = (case ro u of None \<Rightarrow> ro | Some d \<Rightarrow> ro(u \<mapsto> d\<lparr>isMutedDoc := m\<rparr>))"

definition toggleMute :: "hook_state \<Rightarrow> hook_state" where
  "toggleMute s =
     (case localStreamRef s of
        None \<Rightarrow> s
      | Some str \<Rightarrow>
          (case getAudioTracks (track_store s) str of
             [] \<Rightarrow> s
           | audioTrack # _ \<Rightarrow>
               (let en = \<not> enabled (track_store s ! audioTrack);
                    s1 = s\<lparr>track_store :=
                            (track_store s)[audioTrack := (track_store s ! audioTrack)\<lparr>enabled := en\<rparr>],
                          isMuted := \<not> en\<rparr>
                in case user s1 of
                     None \<Rightarrow> s1
                   | Some u \<Rightarrow>
                       if truthy (roomId s1)
                       then s1\<lparr>roster := updateIsMuted (uid_of u) (\<not> en) (roster s1)\<rparr>
                       else s1)))"

subsection \<open>Events\<close>

datatype event =
    RosterSnapshot "(uid \<times> participant_doc \<times> offer_outcome) list"
  | OfferChange doc_change answer_outcome
  | AnswerChange doc_change bool
  | IceChange doc_change bool
  | ConnectionStateChange pc_ref connection_state
  | Elapse nat
  | ToggleMute
  | Cleanup

text \<open>
  A snapshot reaches its callback only while the subscription stands; the callbacks use
  the user and the stream that \<open>join\<close> had.
\<close>

fun step :: "event \<Rightarrow> hook_state \<Rightarrow> hook_state" where
  "step (RosterSnapshot ds) s =
     (case (user s, joinStream s) of
        (Some u, Some str) \<Rightarrow>
          if SubParticipants \<in> subscriptions s then onRosterSnapshot (uid_of u) str ds s else s
      | _ \<Rightarrow> s)"
| "step (OfferChange ch oc) s =
     (case (user s, joinStream s) of
        (Some u, Some str) \<Rightarrow>
          if SubOffers \<in> subscriptions s then onOfferChange (uid_of u) str ch oc s else s
      | _ \<Rightarrow> s)"
| "step (AnswerChange ch accepted) s =
     (if SubAnswers \<in> subscriptions s then onAnswerChange ch accepted s else s)"
| "step (IceChange ch accepted) s =
     (if SubIce \<in> subscriptions s then onIceChange ch accepted s else s)"
| "step (ConnectionStateChange r st) s = connection_state_event r st s"
| "step (Elapse d) s = elapse d s"
| "step ToggleMute s = toggleMute s"
| "step Cleanup s = cleanup s"

definition run :: "event list \<Rightarrow> hook_state \<Rightarrow> hook_state" where
  "run es s = foldl (\<lambda>s e. step e s) s es"

text \<open>
  The state of the hook when it is mounted for a room and a user; \<open>ro\<close> is the roster
  that the store holds for the room.
\<close>

definition mounted ::
  "string option \<Rightarrow> user_info option \<Rightarrow> (uid \<rightharpoonup> participant_doc) \<Rightarrow> hook_state" where
  "mounted rid u ro =
     \<lparr>roomId = rid, user = u, peerConnections = Map.empty, pc_store = [], track_store = [],
      localStreamRef = None, isMuted = False, participants = [], roster = ro,
      incoming_offers = Map.empty, incoming_answers = Map.empty, incoming_ice = Map.empty,
      sent = [], subscriptions = {}, timers = [], now = 0, alerts = [], joinStream = None\<rparr>"

subsection \<open>The audio graph\<close>

type_synonym edges = "(audio_node \<times> audio_node) list"

text \<open>
  The connections that \<open>initLocalStream\<close> makes between audio nodes, once the microphone
  is granted. First the analyser and the self-monitor path, from the raw source.
\<close>

definition monitor_edges :: edges where
  "monitor_edges =
     [(Source, Analyser), (Source, MonitorGain), (MonitorGain, StereoPanner),
      (StereoPanner, Speakers)]"

text \<open>
  Modelled from the spec: \<open>ProfessionalAudioChain.connectWithRNNoise(source, rnnoiseNode,
  destination)\<close> of utils/audioProcessor, which is not among the sources. The spec's
  enhanced mode: the source optionally passes through a high-pass stage, then the
  noise-suppression stage, then dynamics compression, then to the destination.
\<close>

definition connectWithRNNoise :: "bool \<Rightarrow> audio_node \<Rightarrow> audio_node \<Rightarrow> audio_node \<Rightarrow> edges" where
  "connectWithRNNoise hp src rnnoiseNode dst =
     (if hp then [(src, HighPass), (HighPass, rnnoiseNode)] else [(src, rnnoiseNode)])
     @ [(rnnoiseNode, Compressor), (Compressor, dst)]"

text \<open>The legacy simple chain, with the loopback from the destination to the monitor.\<close>

definition simple_chain :: "audio_options \<Rightarrow> edges" where
  "simple_chain opts =
     (if highPassFilter opts \<noteq> Some False then [(Source, HighPass), (HighPass, RNNoise)]
      else [(Source, RNNoise)])
     @ [(RNNoise, Compressor), (Compressor, Destination), (Destination, MonitorGain),
        (MonitorGain, Speakers)]"

text \<open>The graph of the \<open>catch\<close> branch.\<close>

definition fallback_edges :: edges where
  "fallback_edges = [(Source, Compressor), (Compressor, Analyser), (Compressor, Destination)]"

text \<open>
  The whole graph. The clean mode returns only when the destination has a track; a
  failure to make the worklet node, the first statement of the \<open>try\<close>, leads to the
  fallback graph.
\<close>

definition audio_graph :: "audio_options \<Rightarrow> audio_env \<Rightarrow> edges" where
  "audio_graph opts env =
     (let useRNNoiseProcessing = (useRNNoise opts \<and> audioQuality opts \<noteq> Some Basic);
          clean = (if \<not> useRNNoiseProcessing then [(Source, Destination)] else [])
      in if \<not> useRNNoiseProcessing \<and> destinationTrack env then monitor_edges @ clean
         else if workletNodeOk env then
           (let useProfessional = (audioQuality opts = Some Professional
                                   \<or> audioQuality opts = Some Balanced
                                   \<or> audioQuality opts = Some Ultra)
            in monitor_edges @ clean @
               (if useProfessional then connectWithRNNoise (chainHighPass env) Source RNNoise Destination
                else simple_chain opts))
         else monitor_edges @ clean @ fallback_edges)"

text \<open>
  The enhanced topology: the source reaches the noise suppressor, directly or through the
  high-pass stage, the suppressor feeds the compressor, the compressor the destination,
  and the source is not connected to the destination itself.
\<close>

definition enhanced_topology :: "edges \<Rightarrow> bool" where
  "enhanced_topology g \<longleftrightarrow>
     ((Source, RNNoise) \<in> set g \<or> ((Source, HighPass) \<in> set g \<and> (HighPass, RNNoise) \<in> set g))
     \<and> (RNNoise, Compressor) \<in> set g \<and> (Compressor, Destination) \<in> set g
     \<and> (Source, Destination) \<notin> set g"

subsection \<open>The level monitor\<close>









subsection \<open>One open connection per participant\<close>

text \<open>
  Every connection of the store that is not closed is the one that the map holds for
  the id of its target. Two open connections for one id would both have to be that one.
\<close>

definition one_open_pc_per_id :: "hook_state \<Rightarrow> bool" where
  "one_open_pc_per_id s \<longleftrightarrow>
     (\<forall>r < length (pc_store s). connectionState (pc_store s ! r) \<noteq> Closed \<longrightarrow>
        peerConnections s (target (pc_store s ! r)) = Some r)"

subsection \<open>Example states\<close>

text \<open>
  Two users of the room \<open>R\<close>; the state of the first after it has seen the second in the
  roster; an answer and a candidate from the second, and a message from a stranger.
\<close>

definition ex_user1 :: user_info where
  "ex_user1 = \<lparr>uid_of = ''u1'', userDisplayName = ''A''\<rparr>"


definition ex_mounted :: "user_info \<Rightarrow> hook_state" where
  "ex_mounted u = mounted (Some ''R'') (Some u) Map.empty"

definition ex_offered :: hook_state where
  "ex_offered = snd (roster_doc ''u1'' [0] ''u2'' (OfferPublished ''offer'') (ex_mounted ex_user1))"

definition ex_answer :: doc_change where
  "ex_answer = \<lparr>ctype = Added, doc_id = ''d1'', cdata = \<lparr>sender = ''u2'', payload = ''answer''\<rparr>\<rparr>"

definition ex_candidate :: doc_change where
  "ex_candidate =
     \<lparr>ctype = Added, doc_id = ''d2'', cdata = \<lparr>sender = ''u2'', payload = ''candidate''\<rparr>\<rparr>"

definition ex_stranger :: doc_change where
  "ex_stranger = \<lparr>ctype = Added, doc_id = ''d3'', cdata = \<lparr>sender = ''u9'', payload = ''x''\<rparr>\<rparr>"

definition ex_answered :: hook_state where
  "ex_answered = onAnswerChange ex_answer True ex_offered"

definition ex_granted :: audio_env where
  "ex_granted = \<lparr>micGranted = True, workletNodeOk = True, destinationTrack = True,
                  chainHighPass = False\<rparr>"

definition ex_denied :: audio_env where
  "ex_denied = \<lparr>micGranted = False, workletNodeOk = True, destinationTrack = True,
                 chainHighPass = False\<rparr>"

definition ex_joined :: hook_state where
  "ex_joined = joinEffect ex_granted (ex_mounted ex_user1)"

definition ex_offer :: doc_change where
  "ex_offer = \<lparr>ctype = Added, doc_id = ''d0'', cdata = \<lparr>sender = ''u2'', payload = ''offer2''\<rparr>\<rparr>"

definition ex_events :: "event list" where
  "ex_events =
     [RosterSnapshot [(''u2'', \<lparr>displayName = ''B'', isMutedDoc = False\<rparr>, OfferPublished ''offer'')],
      RosterSnapshot [(''u2'', \<lparr>displayName = ''B'', isMutedDoc = False\<rparr>, OfferPublished ''offer'')],
      OfferChange ex_offer (AnswerPublished ''answer'')]"

definition ex_balanced_off :: audio_options where
  "ex_balanced_off = \<lparr>useRNNoise = False, audioQuality = Some Balanced, highPassFilter = Some True\<rparr>"

definition ex_no_worklet :: audio_env where
  "ex_no_worklet = \<lparr>micGranted = True, workletNodeOk = False, destinationTrack = True,
                     chainHighPass = False\<rparr>"

definition ex_balanced_on :: audio_options where
  "ex_balanced_on = \<lparr>useRNNoise = True, audioQuality = Some Balanced, highPassFilter = Some True\<rparr>"





section \<open>Theorems\<close>

subsection \<open>The order of ids\<close>

lemma js_string_lt_irrefl: "\<not> js_string_lt a a"
  by (induction a) auto



subsection \<open>Facts about the example states\<close>

lemma ex_offered_eq:
  "ex_offered = (ex_mounted ex_user1)
     \<lparr>pc_store := [(new_pc ''u2'' [0])\<lparr>localDescription := Some ''offer'',
                                        signalingState := HaveLocalOffer\<rparr>],
      peerConnections := [''u2'' \<mapsto> 0],
      sent := [\<lparr>mailbox_of = ''u2'', mkind = Offer, mfrom = ''u1'', mpayload = ''offer''\<rparr>]\<rparr>"
  by (simp add: ex_offered_def roster_doc_def createPeerConnection_def update_pc_def Let_def
        ex_mounted_def mounted_def ex_user1_def)

lemma ex_answered_eq:
  "ex_answered = ex_offered
     \<lparr>pc_store := [(new_pc ''u2'' [0])\<lparr>localDescription := Some ''offer'',
          remoteDescription := Some ''answer'', signalingState := Stable\<rparr>]\<rparr>"
  by (simp add: ex_answered_def onAnswerChange_def lookup_pc_def update_pc_def Let_def
        ex_offered_eq ex_answer_def ex_mounted_def mounted_def)

lemma ex_joined_eq:
  "ex_joined = (ex_mounted ex_user1)
     \<lparr>track_store := [live_audio_track, live_audio_track], localStreamRef := Some [1],
      roster := [''u1'' \<mapsto> \<lparr>displayName = ''A'', isMutedDoc = False\<rparr>],
      subscriptions := {SubParticipants, SubOffers, SubAnswers, SubIce},
      joinStream := Some [1]\<rparr>"
  by (simp add: ex_joined_def joinEffect_def join_def initLocalStream_def ex_granted_def
        ex_mounted_def mounted_def ex_user1_def truthy_def Let_def)

lemma ex_answer_fields:
  "ctype ex_answer = Added" "sender (cdata ex_answer) = ''u2''" "doc_id ex_answer = ''d1''"
  "payload (cdata ex_answer) = ''answer''"
  by (simp_all add: ex_answer_def)

lemma ex_candidate_fields:
  "ctype ex_candidate = Added" "sender (cdata ex_candidate) = ''u2''"
  "doc_id ex_candidate = ''d2''" "payload (cdata ex_candidate) = ''candidate''"
  by (simp_all add: ex_candidate_def)

lemma ex_stranger_fields:
  "ctype ex_stranger = Added" "sender (cdata ex_stranger) = ''u9''"
  "doc_id ex_stranger = ''d3''" "payload (cdata ex_stranger) = ''x''"
  by (simp_all add: ex_stranger_def)

lemma lookup_pc_SomeD:
  "lookup_pc s u = Some (r, pc) \<Longrightarrow>
     peerConnections s u = Some r \<and> r < length (pc_store s) \<and> pc = pc_store s ! r"
  by (auto simp: lookup_pc_def split: option.splits if_splits)

subsection \<open>C1: the initiator rule\<close>





subsection \<open>C3: stale answers\<close>

text \<open>
  Claim C3. For every answer added to the mailbox: the document is deleted from the
  mailbox; the store of connections changes only if the sender has a connection whose
  signaling state is \<open>have-local-offer\<close>; in that state an accepted answer becomes the
  remote description of that connection; and when the sender has no connection in that
  state, the handler does nothing but delete the document.
\<close>

theorem stale_answer_rejection:
  assumes "ctype ch = Added"
  shows "incoming_answers (onAnswerChange ch accepted s) (doc_id ch) = None
       \<and> (pc_store (onAnswerChange ch accepted s) \<noteq> pc_store s \<longrightarrow>
            (\<exists>r pc. lookup_pc s (sender (cdata ch)) = Some (r, pc)
                    \<and> signalingState pc = HaveLocalOffer))
       \<and> (\<forall>r pc. lookup_pc s (sender (cdata ch)) = Some (r, pc)
                  \<and> signalingState pc = HaveLocalOffer \<and> accepted \<longrightarrow>
            pc_store (onAnswerChange ch accepted s) =
              (pc_store s)[r := pc\<lparr>remoteDescription := Some (payload (cdata ch)),
                                   signalingState := Stable\<rparr>])
       \<and> (\<not> (\<exists>r pc. lookup_pc s (sender (cdata ch)) = Some (r, pc)
                     \<and> signalingState pc = HaveLocalOffer) \<longrightarrow>
            onAnswerChange ch accepted s =
              s\<lparr>incoming_answers := (incoming_answers s)(doc_id ch := None)\<rparr>)"
  using assms
  by (auto simp: onAnswerChange_def update_pc_def Let_def dest!: lookup_pc_SomeD
           split: option.splits if_splits)

theorem stale_answer_rejection_witness:
  "ctype ex_answer = Added
   \<and> lookup_pc ex_offered ''u2'' = Some (0, pc_store ex_offered ! 0)
   \<and> signalingState (pc_store ex_offered ! 0) = HaveLocalOffer
   \<and> incoming_answers (onAnswerChange ex_answer True ex_offered) ''d1'' = None
   \<and> pc_store (onAnswerChange ex_answer True ex_offered) =
       (pc_store ex_offered)[0 := (pc_store ex_offered ! 0)
          \<lparr>remoteDescription := Some ''answer'', signalingState := Stable\<rparr>]
   \<and> \<not> (\<exists>r pc. lookup_pc (onAnswerChange ex_answer True ex_offered) ''u2'' = Some (r, pc)
              \<and> signalingState pc = HaveLocalOffer)
   \<and> onAnswerChange ex_answer True (onAnswerChange ex_answer True ex_offered) =
       (onAnswerChange ex_answer True ex_offered)
         \<lparr>incoming_answers :=
            (incoming_answers (onAnswerChange ex_answer True ex_offered))(''d1'' := None)\<rparr>"
proof -
  have h1: "ctype ex_answer = Added" by (simp add: ex_answer_def)
  have h2: "lookup_pc ex_offered ''u2'' = Some (0, pc_store ex_offered ! 0)"
    by (simp add: lookup_pc_def ex_offered_eq)
  have h3: "signalingState (pc_store ex_offered ! 0) = HaveLocalOffer"
    by (simp add: ex_offered_eq)
  have h4: "\<not> (\<exists>r pc. lookup_pc (onAnswerChange ex_answer True ex_offered) ''u2'' = Some (r, pc)
              \<and> signalingState pc = HaveLocalOffer)"
    by (simp add: onAnswerChange_def lookup_pc_def update_pc_def ex_offered_eq ex_answer_def Let_def)
  show ?thesis
    using h1 h2 h3 h4 stale_answer_rejection [OF h1, of True ex_offered]
      stale_answer_rejection [OF h1, of True "onAnswerChange ex_answer True ex_offered"]
    unfolding ex_answer_fields by blast
qed

subsection \<open>C4: candidates wait for the remote description\<close>

text \<open>
  Claim C4. For every ICE candidate added to the mailbox: the document is deleted from
  the mailbox after the attempt; the store of connections changes only if the sender has
  a connection whose remote description is set; on such a connection an accepted
  candidate is added to its candidates; and when the sender has no connection with a
  remote description, the handler does nothing but delete the document.
\<close>

theorem candidate_gating:
  assumes "ctype ch = Added"
  shows "incoming_ice (onIceChange ch accepted s) (doc_id ch) = None
       \<and> (pc_store (onIceChange ch accepted s) \<noteq> pc_store s \<longrightarrow>
            (\<exists>r pc. lookup_pc s (sender (cdata ch)) = Some (r, pc)
                    \<and> remoteDescription pc \<noteq> None))
       \<and> (\<forall>r pc. lookup_pc s (sender (cdata ch)) = Some (r, pc)
                  \<and> remoteDescription pc \<noteq> None \<and> accepted \<longrightarrow>
            pc_store (onIceChange ch accepted s) =
              (pc_store s)[r := pc\<lparr>iceCandidates := iceCandidates pc @ [payload (cdata ch)]\<rparr>])
       \<and> (\<not> (\<exists>r pc. lookup_pc s (sender (cdata ch)) = Some (r, pc)
                     \<and> remoteDescription pc \<noteq> None) \<longrightarrow>
            onIceChange ch accepted s =
              s\<lparr>incoming_ice := (incoming_ice s)(doc_id ch := None)\<rparr>)"
  using assms
  by (auto simp: onIceChange_def update_pc_def Let_def dest!: lookup_pc_SomeD
           split: option.splits if_splits)

theorem candidate_gating_witness:
  "ctype ex_candidate = Added
   \<and> lookup_pc ex_answered ''u2'' = Some (0, pc_store ex_answered ! 0)
   \<and> remoteDescription (pc_store ex_answered ! 0) \<noteq> None
   \<and> incoming_ice (onIceChange ex_candidate True ex_answered) ''d2'' = None
   \<and> pc_store (onIceChange ex_candidate True ex_answered) =
       (pc_store ex_answered)[0 := (pc_store ex_answered ! 0)
          \<lparr>iceCandidates := iceCandidates (pc_store ex_answered ! 0) @ [''candidate'']\<rparr>]
   \<and> \<not> (\<exists>r pc. lookup_pc ex_offered ''u2'' = Some (r, pc) \<and> remoteDescription pc \<noteq> None)
   \<and> onIceChange ex_candidate True ex_offered =
       ex_offered\<lparr>incoming_ice := (incoming_ice ex_offered)(''d2'' := None)\<rparr>"
proof -
  have h1: "ctype ex_candidate = Added" by (simp add: ex_candidate_def)
  have h2: "lookup_pc ex_answered ''u2'' = Some (0, pc_store ex_answered ! 0)"
    by (simp add: lookup_pc_def ex_answered_eq ex_offered_eq)
  have h3: "remoteDescription (pc_store ex_answered ! 0) \<noteq> None"
    by (simp add: ex_answered_eq)
  have h4: "\<not> (\<exists>r pc. lookup_pc ex_offered ''u2'' = Some (r, pc) \<and> remoteDescription pc \<noteq> None)"
    by (simp add: lookup_pc_def ex_offered_eq new_pc_def)
  show ?thesis
    using h1 h2 h3 h4 candidate_gating [OF h1, of True ex_answered]
      candidate_gating [OF h1, of True ex_offered]
    unfolding ex_candidate_fields by blast
qed

subsection \<open>C9: messages from an unknown sender\<close>

text \<open>
  Claim C9. An answer or an ICE candidate added to the mailbox whose sender has no
  connection in the map is deleted from the mailbox, and nothing else happens: no
  description and no candidate is applied. The handlers have no failing branch for it,
  since the guard \<open>pc && ...\<close> keeps them from reading a field of the missing connection.
\<close>

theorem unknown_sender_safety:
  assumes "ctype ch = Added" and "peerConnections s (sender (cdata ch)) = None"
  shows "onAnswerChange ch accepted s =
           s\<lparr>incoming_answers := (incoming_answers s)(doc_id ch := None)\<rparr>
       \<and> onIceChange ch accepted s = s\<lparr>incoming_ice := (incoming_ice s)(doc_id ch := None)\<rparr>"
  using assms
  by (simp add: onAnswerChange_def onIceChange_def lookup_pc_def Let_def)

theorem unknown_sender_safety_witness:
  "ctype ex_stranger = Added
   \<and> peerConnections ex_offered (sender (cdata ex_stranger)) = None
   \<and> onAnswerChange ex_stranger True ex_offered =
       ex_offered\<lparr>incoming_answers := (incoming_answers ex_offered)(''d3'' := None)\<rparr>
   \<and> onIceChange ex_stranger True ex_offered =
       ex_offered\<lparr>incoming_ice := (incoming_ice ex_offered)(''d3'' := None)\<rparr>"
proof -
  have h1: "ctype ex_stranger = Added" by (simp add: ex_stranger_def)
  have h2: "peerConnections ex_offered (sender (cdata ex_stranger)) = None"
    by (simp add: ex_offered_eq ex_stranger_def)
  show ?thesis
    using h1 h2 unknown_sender_safety [OF h1 h2, of True]
    unfolding ex_stranger_fields by blast
qed

subsection \<open>C5: the grace period\<close>








subsection \<open>C2: one connection per participant\<close>

lemma inv_frame [simp]:
  "one_open_pc_per_id (s\<lparr>sent := a\<rparr>) = one_open_pc_per_id s"
  "one_open_pc_per_id (s\<lparr>incoming_offers := b\<rparr>) = one_open_pc_per_id s"
  "one_open_pc_per_id (s\<lparr>incoming_answers := b\<rparr>) = one_open_pc_per_id s"
  "one_open_pc_per_id (s\<lparr>incoming_ice := b\<rparr>) = one_open_pc_per_id s"
  "one_open_pc_per_id (s\<lparr>participants := c\<rparr>) = one_open_pc_per_id s"
  "one_open_pc_per_id (s\<lparr>timers := d\<rparr>) = one_open_pc_per_id s"
  "one_open_pc_per_id (s\<lparr>now := e\<rparr>) = one_open_pc_per_id s"
  "one_open_pc_per_id (s\<lparr>track_store := f\<rparr>) = one_open_pc_per_id s"
  "one_open_pc_per_id (s\<lparr>isMuted := g\<rparr>) = one_open_pc_per_id s"
  "one_open_pc_per_id (s\<lparr>roster := h\<rparr>) = one_open_pc_per_id s"
  "one_open_pc_per_id (s\<lparr>subscriptions := i\<rparr>) = one_open_pc_per_id s"
  by (simp_all add: one_open_pc_per_id_def)

lemma inv_create:
  assumes "one_open_pc_per_id s" "peerConnections s u = None"
  shows "one_open_pc_per_id (snd (createPeerConnection u str s))"
  using assms
  by (auto simp: one_open_pc_per_id_def createPeerConnection_def Let_def nth_append new_pc_def less_Suc_eq)

lemma inv_update_pc:
  assumes "one_open_pc_per_id s" "\<And>pc. target (f pc) = target pc"
    "\<And>pc. connectionState (f pc) \<noteq> Closed \<Longrightarrow> connectionState pc \<noteq> Closed"
  shows "one_open_pc_per_id (update_pc r f s)"
  using assms
  by (auto simp: one_open_pc_per_id_def update_pc_def nth_list_update)

lemma inv_roster_doc:
  assumes "one_open_pc_per_id s"
  shows "one_open_pc_per_id (snd (roster_doc self str did oc s))"
proof (cases "did \<noteq> self \<and> peerConnections s did = None \<and> js_string_lt self did")
  case True
  then have n: "peerConnections s did = None" by simp
  obtain r s1 where c: "createPeerConnection did str s = (r, s1)" by (cases "createPeerConnection did str s")
  have i1: "one_open_pc_per_id s1" using inv_create[OF assms n, of str] c by simp
  have i2: "one_open_pc_per_id (update_pc r (\<lambda>pc. pc\<lparr>localDescription := Some offer,
                                              signalingState := HaveLocalOffer\<rparr>) s1)" for offer
    using i1 by (rule inv_update_pc) simp_all
  show ?thesis using True c i1 i2 
    by (cases oc) (simp_all add: roster_doc_def Let_def)
next
  case False
  then show ?thesis using assms by (auto simp: roster_doc_def)
qed

lemma inv_roster_docs:
  "one_open_pc_per_id s \<Longrightarrow> one_open_pc_per_id (roster_docs self str ds cp s)"
proof (induction ds arbitrary: cp s)
  case Nil
  then show ?case by simp
next
  case (Cons x ds)
  obtain did d oc where x: "x = (did, d, oc)" by (cases x)
  obtain ok s' where r: "roster_doc self str did oc s = (ok, s')" by (cases "roster_doc self str did oc s")
  have "one_open_pc_per_id s'" using inv_roster_doc[OF Cons.prems, of self str did oc] r by simp
  then show ?case using Cons.IH x r by (cases ok) simp_all
qed

lemma inv_onOfferChange:
  assumes "one_open_pc_per_id s"
  shows "one_open_pc_per_id (onOfferChange self str ch oc s)"
proof (cases "ctype ch = Added \<and> peerConnections s (sender (cdata ch)) = None")
  case True
  then have n: "peerConnections s (sender (cdata ch)) = None" by simp
  obtain r s1 where c: "createPeerConnection (sender (cdata ch)) str s = (r, s1)"
    by (cases "createPeerConnection (sender (cdata ch)) str s")
  have i1: "one_open_pc_per_id s1" using inv_create[OF assms n, of str] c by simp
  have i2: "one_open_pc_per_id (update_pc r (have_remote_offer x) s1)" for x
    using i1 by (rule inv_update_pc) (simp_all add: have_remote_offer_def)
  have i3: "one_open_pc_per_id (update_pc r (answered x y) s1)" for x y
    using i1 by (rule inv_update_pc) (simp_all add: answered_def)
  show ?thesis using True c i1 i2 i3
    by (cases oc) (simp_all add: onOfferChange_def Let_def)
next
  case False
  then show ?thesis using assms by (auto simp: onOfferChange_def Let_def)
qed

lemma inv_onAnswerChange:
  assumes "one_open_pc_per_id s"
  shows "one_open_pc_per_id (onAnswerChange ch acc s)"
proof -
  have "one_open_pc_per_id (update_pc r (\<lambda>pc. pc\<lparr>remoteDescription := Some x,
                                                    signalingState := Stable\<rparr>) s)" for r x
    using assms by (rule inv_update_pc) simp_all
  then show ?thesis using assms
    by (auto simp: onAnswerChange_def Let_def split: option.splits)
qed

lemma inv_onIceChange:
  assumes "one_open_pc_per_id s"
  shows "one_open_pc_per_id (onIceChange ch acc s)"
proof -
  have "one_open_pc_per_id (update_pc r (\<lambda>pc. pc\<lparr>iceCandidates := iceCandidates pc @ [x]\<rparr>) s)" for r x
    using assms by (rule inv_update_pc) simp_all
  then show ?thesis using assms
    by (auto simp: onIceChange_def Let_def split: option.splits)
qed

lemma inv_connection_state_event:
  assumes "one_open_pc_per_id s"
  shows "one_open_pc_per_id (connection_state_event r st s)"
  using assms
  by (auto simp: connection_state_event_def onconnectionstatechange_def update_pc_def
        one_open_pc_per_id_def nth_list_update split: connection_state.splits)

lemma inv_grace_timeout:
  assumes "one_open_pc_per_id s"
  shows "one_open_pc_per_id (grace_timeout r s)"
proof (cases "r < length (pc_store s) \<and> connectionState (pc_store s ! r) = Failed")
  case False
  then show ?thesis using assms by (auto simp: grace_timeout_def)
next
  case True
  then have r: "r < length (pc_store s)" and f: "connectionState (pc_store s ! r) = Failed"
    by simp_all
  have mr: "peerConnections s (target (pc_store s ! r)) = Some r"
    using assms r f by (simp add: one_open_pc_per_id_def)
  have eq: "grace_timeout r s =
      s\<lparr>pc_store := (pc_store s)[r := close_pc (pc_store s ! r)],
        peerConnections := (peerConnections s)(target (pc_store s ! r) := None)\<rparr>"
    using True by (simp add: grace_timeout_def update_pc_def Let_def)
  show ?thesis
    unfolding eq one_open_pc_per_id_def
  proof (intro allI impI)
    fix q
    assume q: "q < length (pc_store (s\<lparr>pc_store := (pc_store s)[r := close_pc (pc_store s ! r)],
        peerConnections := (peerConnections s)(target (pc_store s ! r) := None)\<rparr>))"
      and o: "connectionState (pc_store (s\<lparr>pc_store := (pc_store s)[r := close_pc (pc_store s ! r)],
        peerConnections := (peerConnections s)(target (pc_store s ! r) := None)\<rparr>) ! q) \<noteq> Closed"
    from q have ql: "q < length (pc_store s)" by simp
    from o r have qr: "q \<noteq> r" by (auto simp: close_pc_def)
    from o qr have qo: "connectionState (pc_store s ! q) \<noteq> Closed" by simp
    have mq: "peerConnections s (target (pc_store s ! q)) = Some q"
      using assms ql qo by (simp add: one_open_pc_per_id_def)
    have "target (pc_store s ! q) \<noteq> target (pc_store s ! r)"
      using mq mr qr by auto
    then show "peerConnections (s\<lparr>pc_store := (pc_store s)[r := close_pc (pc_store s ! r)],
        peerConnections := (peerConnections s)(target (pc_store s ! r) := None)\<rparr>)
        (target (pc_store (s\<lparr>pc_store := (pc_store s)[r := close_pc (pc_store s ! r)],
        peerConnections := (peerConnections s)(target (pc_store s ! r) := None)\<rparr>) ! q)) = Some q"
      using mq qr by simp
  qed
qed

lemma inv_fire_due:
  "one_open_pc_per_id s \<Longrightarrow> one_open_pc_per_id (fire_due t ts s)"
  by (induction t ts s rule: fire_due.induct) (auto simp: inv_grace_timeout)

lemma inv_elapse: "one_open_pc_per_id s \<Longrightarrow> one_open_pc_per_id (elapse d s)"
  by (simp add: elapse_def inv_fire_due)

lemma inv_toggleMute: "one_open_pc_per_id s \<Longrightarrow> one_open_pc_per_id (toggleMute s)"
  by (auto simp: toggleMute_def Let_def split: option.splits list.splits)

lemma close_all_nth:
  "r < length pcs \<Longrightarrow> close_all m pcs ! r = (if r \<in> ran m then close_pc (pcs ! r) else pcs ! r)"
  by (simp add: close_all_def nth_enumerate_eq)

lemma close_all_closed:
  assumes "one_open_pc_per_id s" "r < length (pc_store s)"
  shows "connectionState (close_all (peerConnections s) (pc_store s) ! r) = Closed"
proof (cases "connectionState (pc_store s ! r) = Closed")
  case True
  then show ?thesis using assms(2) by (simp add: close_all_nth close_pc_def)
next
  case False
  then have "peerConnections s (target (pc_store s ! r)) = Some r"
    using assms by (simp add: one_open_pc_per_id_def)
  then have "r \<in> ran (peerConnections s)" by (auto simp: ran_def)
  then show ?thesis using assms(2) by (simp add: close_all_nth close_pc_def)
qed

lemma length_close_all [simp]: "length (close_all m pcs) = length pcs"
  by (simp add: close_all_def)

lemma inv_cleanup:
  assumes "one_open_pc_per_id s"
  shows "one_open_pc_per_id (cleanup s)"
proof -
  have "one_open_pc_per_id (s\<lparr>pc_store := close_all (peerConnections s) (pc_store s),
                  peerConnections := Map.empty\<rparr>)"
    using close_all_closed[OF assms] by (simp add: one_open_pc_per_id_def)
  moreover have "one_open_pc_per_id
     (s\<lparr>track_store := ts, pc_store := close_all (peerConnections s) (pc_store s),
                  peerConnections := Map.empty\<rparr>)" for ts
    using close_all_closed[OF assms] by (simp add: one_open_pc_per_id_def)
  ultimately show ?thesis
    by (simp add: cleanup_def Let_def split: option.splits)
qed

lemma inv_step: "one_open_pc_per_id s \<Longrightarrow> one_open_pc_per_id (step e s)"
  by (cases e)
     (auto simp: onRosterSnapshot_def inv_roster_docs inv_onOfferChange inv_onAnswerChange
        inv_onIceChange inv_connection_state_event inv_elapse inv_toggleMute inv_cleanup
        split: option.splits)

lemma inv_run: "one_open_pc_per_id s \<Longrightarrow> one_open_pc_per_id (run es s)"
  unfolding run_def by (induction es arbitrary: s) (simp_all add: inv_step)

lemma roster_doc_linked:
  "peerConnections s did \<noteq> None \<Longrightarrow> roster_doc self str did oc s = (True, s)"
  by (auto simp: roster_doc_def)

lemma roster_doc_links:
  "did \<noteq> self \<Longrightarrow> peerConnections s did = None \<Longrightarrow> js_string_lt self did \<Longrightarrow>
     peerConnections (snd (roster_doc self str did oc s)) did \<noteq> None"
  by (simp add: roster_doc_def createPeerConnection_def update_pc_def Let_def
        split: offer_outcome.splits)

lemma roster_doc_twice:
  "snd (roster_doc self str did oc2 (snd (roster_doc self str did oc s)))
     = snd (roster_doc self str did oc s)"
proof (cases "did \<noteq> self \<and> peerConnections s did = None \<and> js_string_lt self did")
  case True
  then have "peerConnections (snd (roster_doc self str did oc s)) did \<noteq> None"
    by (simp add: roster_doc_links)
  then show ?thesis by (simp add: roster_doc_linked)
next
  case False
  then have "roster_doc self str did oc s = (True, s)" and "roster_doc self str did oc2 s = (True, s)"
    by (auto simp: roster_doc_def)
  then show ?thesis by simp
qed

lemma offer_linked:
  "ctype ch = Added \<Longrightarrow> peerConnections s (sender (cdata ch)) \<noteq> None \<Longrightarrow>
     onOfferChange self str ch aoc s = s\<lparr>incoming_offers := (incoming_offers s)(doc_id ch := None)\<rparr>"
  by (auto simp: onOfferChange_def Let_def)

lemma open_unique:
  assumes "one_open_pc_per_id s" "r1 < length (pc_store s)" "r2 < length (pc_store s)"
    "connectionState (pc_store s ! r1) \<noteq> Closed" "connectionState (pc_store s ! r2) \<noteq> Closed"
    "target (pc_store s ! r1) = target (pc_store s ! r2)"
  shows "r1 = r2"
proof -
  have "peerConnections s (target (pc_store s ! r1)) = Some r1"
    using assms(1,2,4) by (simp add: one_open_pc_per_id_def)
  moreover have "peerConnections s (target (pc_store s ! r2)) = Some r2"
    using assms(1,3,5) by (simp add: one_open_pc_per_id_def)
  ultimately have "Some r1 = Some r2" by (simp only: assms(6))
  then show ?thesis by (simp only: option.inject)
qed

lemma inv_empty: "pc_store s = [] \<Longrightarrow> one_open_pc_per_id s"
  by (simp add: one_open_pc_per_id_def)

text \<open>
  Claim C2. At most one peer connection exists per remote participant id at any time:
  whatever events follow a state without connections (and, more generally, a state in
  which every open connection is the one the map holds for its target), two connections
  of the store that are both open and have the same target are the same connection.
  Both creation paths check the map first: the roster handler leaves the state as it is
  for a peer that already has a connection, so handling the same roster document a
  second time changes nothing, and an offer from a peer that already has a connection
  is only deleted from the mailbox.
\<close>

theorem peer_link_uniqueness:
  "(one_open_pc_per_id s \<longrightarrow> one_open_pc_per_id (run es s))
   \<and> (pc_store s = [] \<longrightarrow>
        (\<forall>r1 r2. r1 < length (pc_store (run es s)) \<and> r2 < length (pc_store (run es s))
            \<and> connectionState (pc_store (run es s) ! r1) \<noteq> Closed
            \<and> connectionState (pc_store (run es s) ! r2) \<noteq> Closed
            \<and> target (pc_store (run es s) ! r1) = target (pc_store (run es s) ! r2)
          \<longrightarrow> r1 = r2))
   \<and> (peerConnections s did \<noteq> None \<longrightarrow> roster_doc self str did oc s = (True, s))
   \<and> snd (roster_doc self str did oc2 (snd (roster_doc self str did oc s)))
       = snd (roster_doc self str did oc s)
   \<and> (ctype ch = Added \<and> peerConnections s (sender (cdata ch)) \<noteq> None \<longrightarrow>
        onOfferChange self str ch aoc s =
          s\<lparr>incoming_offers := (incoming_offers s)(doc_id ch := None)\<rparr>)"
proof (intro conjI impI allI)
  assume "one_open_pc_per_id s"
  then show "one_open_pc_per_id (run es s)" by (rule inv_run)
next
  fix r1 r2
  assume e: "pc_store s = []"
    and h: "r1 < length (pc_store (run es s)) \<and> r2 < length (pc_store (run es s))
            \<and> connectionState (pc_store (run es s) ! r1) \<noteq> Closed
            \<and> connectionState (pc_store (run es s) ! r2) \<noteq> Closed
            \<and> target (pc_store (run es s) ! r1) = target (pc_store (run es s) ! r2)"
  have i: "one_open_pc_per_id (run es s)" using e by (intro inv_run inv_empty)
  from h show "r1 = r2" by (intro open_unique [OF i]) simp_all
next
  assume "peerConnections s did \<noteq> None"
  then show "roster_doc self str did oc s = (True, s)" by (rule roster_doc_linked)
next
  show "snd (roster_doc self str did oc2 (snd (roster_doc self str did oc s)))
       = snd (roster_doc self str did oc s)" by (rule roster_doc_twice)
next
  assume "ctype ch = Added \<and> peerConnections s (sender (cdata ch)) \<noteq> None"
  then show "onOfferChange self str ch aoc s =
          s\<lparr>incoming_offers := (incoming_offers s)(doc_id ch := None)\<rparr>"
    by (simp add: offer_linked)
qed

lemma ex_run_store:
  "pc_store (run ex_events ex_joined) =
     [(new_pc ''u2'' [1])\<lparr>localDescription := Some ''offer'', signalingState := HaveLocalOffer\<rparr>]
   \<and> peerConnections (run ex_events ex_joined) = [''u2'' \<mapsto> 0]"
  by (simp add: run_def ex_events_def ex_joined_eq ex_mounted_def mounted_def ex_user1_def
        onRosterSnapshot_def roster_doc_def createPeerConnection_def update_pc_def Let_def
        onOfferChange_def ex_offer_def)

theorem peer_link_uniqueness_witness:
  "pc_store ex_joined = [] \<and> one_open_pc_per_id ex_joined
   \<and> one_open_pc_per_id (run ex_events ex_joined)
   \<and> length (pc_store (run ex_events ex_joined)) = 1
   \<and> peerConnections ex_offered ''u2'' \<noteq> None
   \<and> roster_doc ''u1'' [0] ''u2'' (OfferPublished ''again'') ex_offered = (True, ex_offered)
   \<and> ctype ex_offer = Added
   \<and> onOfferChange ''u1'' [0] ex_offer (AnswerPublished ''answer'') ex_offered =
        ex_offered\<lparr>incoming_offers := (incoming_offers ex_offered)(''d0'' := None)\<rparr>"
proof -
  have h1: "pc_store ex_joined = []"
    by (simp add: ex_joined_eq ex_mounted_def mounted_def)
  have h2: "one_open_pc_per_id ex_joined"
    by (simp add: one_open_pc_per_id_def h1)
  have h3: "peerConnections ex_offered ''u2'' \<noteq> None"
    by (simp add: ex_offered_eq)
  have h4: "ctype ex_offer = Added \<and> peerConnections ex_offered (sender (cdata ex_offer)) \<noteq> None"
    by (simp add: ex_offer_def ex_offered_eq)
  have f: "doc_id ex_offer = ''d0''" by (simp add: ex_offer_def)
  have l: "length (pc_store (run ex_events ex_joined)) = 1"
    by (simp add: ex_run_store)
  have a: "one_open_pc_per_id (run ex_events ex_joined)"
    using h2 peer_link_uniqueness [where s = ex_joined and es = ex_events] by blast
  have b: "roster_doc ''u1'' [0] ''u2'' (OfferPublished ''again'') ex_offered = (True, ex_offered)"
    using h3 peer_link_uniqueness [where s = ex_offered and did = "''u2''" and self = "''u1''"
        and str = "[0]" and oc = "OfferPublished ''again''"]
    by blast
  have c: "onOfferChange ''u1'' [0] ex_offer (AnswerPublished ''answer'') ex_offered =
        ex_offered\<lparr>incoming_offers := (incoming_offers ex_offered)(doc_id ex_offer := None)\<rparr>"
    using h4 peer_link_uniqueness [where s = ex_offered and ch = ex_offer and self = "''u1''"
        and str = "[0]" and aoc = "AnswerPublished ''answer''"]
    by blast
  show ?thesis using h1 h2 h3 h4 l a b c unfolding f by blast
qed

subsection \<open>C6: a denied microphone\<close>

lemma join_denied:
  "\<not> micGranted env \<Longrightarrow> user s = Some u \<Longrightarrow> truthy (roomId s) \<Longrightarrow>
     fst (initLocalStream env s) = None \<and> joinEffect env s = s\<lparr>alerts := alerts s @ [mic_alert]\<rparr>"
  by (simp add: joinEffect_def join_def initLocalStream_def)

lemma fire_due_no_store:
  "pc_store s = [] \<Longrightarrow>
     pc_store (fire_due t ts s) = [] \<and> peerConnections (fire_due t ts s) = peerConnections s
     \<and> subscriptions (fire_due t ts s) = subscriptions s \<and> roster (fire_due t ts s) = roster s
     \<and> sent (fire_due t ts s) = sent s"
  by (induction t ts s rule: fire_due.induct) (auto simp: grace_timeout_def)

lemma step_never_joined:
  assumes "subscriptions s = {}" "pc_store s = []" "peerConnections s = Map.empty"
    "roster s me = None"
  shows "subscriptions (step e s) = {} \<and> pc_store (step e s) = []
       \<and> peerConnections (step e s) = Map.empty \<and> roster (step e s) me = None
       \<and> sent (step e s) = sent s"
proof (cases e)
  case (Elapse d)
  then show ?thesis using assms fire_due_no_store [of "s\<lparr>now := now s + d, timers := []\<rparr>"]
    by (simp add: elapse_def)
next
  case ToggleMute
  then show ?thesis using assms
    by (auto simp: toggleMute_def updateIsMuted_def Let_def split: option.splits list.splits)
next
  case Cleanup
  then show ?thesis using assms
    by (auto simp: cleanup_def close_all_def Let_def split: option.splits)
qed (use assms in \<open>auto simp: connection_state_event_def split: option.splits\<close>)

lemma run_never_joined:
  assumes "subscriptions s = {}" "pc_store s = []" "peerConnections s = Map.empty"
    "roster s me = None"
  shows "subscriptions (run es s) = {} \<and> pc_store (run es s) = []
       \<and> peerConnections (run es s) = Map.empty \<and> roster (run es s) me = None
       \<and> sent (run es s) = sent s"
  using assms
proof (induction es arbitrary: s)
  case Nil
  then show ?case by (simp add: run_def)
next
  case (Cons e es)
  have st: "subscriptions (step e s) = {} \<and> pc_store (step e s) = []
       \<and> peerConnections (step e s) = Map.empty \<and> roster (step e s) me = None
       \<and> sent (step e s) = sent s"
    using Cons.prems by (rule step_never_joined)
  have "run (e # es) s = run es (step e s)" by (simp add: run_def)
  then show ?case using Cons.IH [of "step e s"] st by simp
qed

text \<open>
  Claim C6. If the microphone is not granted, \<open>initLocalStream\<close> reports it with an
  alert and hands back no stream, and \<open>join\<close> does nothing more: the state after the
  effect is the state before it with the alert added, so the own roster entry is not
  published and no subscription is made. From a state that had no subscription, no
  connection and no own roster entry, no later event changes that: there is never a
  subscription, a connection, an own roster entry or a message sent.
\<close>

theorem mic_denied_join_stops:
  assumes "\<not> micGranted env" and "user s = Some u" and "truthy (roomId s)"
  shows "fst (initLocalStream env s) = None
       \<and> joinEffect env s = s\<lparr>alerts := alerts s @ [mic_alert]\<rparr>
       \<and> (subscriptions s = {} \<and> pc_store s = [] \<and> peerConnections s = Map.empty
            \<and> roster s (uid_of u) = None \<longrightarrow>
          (\<forall>es. subscriptions (run es (joinEffect env s)) = {}
               \<and> pc_store (run es (joinEffect env s)) = []
               \<and> peerConnections (run es (joinEffect env s)) = Map.empty
               \<and> roster (run es (joinEffect env s)) (uid_of u) = None
               \<and> sent (run es (joinEffect env s)) = sent s))"
proof -
  have j: "fst (initLocalStream env s) = None \<and> joinEffect env s = s\<lparr>alerts := alerts s @ [mic_alert]\<rparr>"
    using assms by (rule join_denied)
  have "subscriptions s = {} \<and> pc_store s = [] \<and> peerConnections s = Map.empty
            \<and> roster s (uid_of u) = None \<longrightarrow>
          (\<forall>es. subscriptions (run es (s\<lparr>alerts := alerts s @ [mic_alert]\<rparr>)) = {}
               \<and> pc_store (run es (s\<lparr>alerts := alerts s @ [mic_alert]\<rparr>)) = []
               \<and> peerConnections (run es (s\<lparr>alerts := alerts s @ [mic_alert]\<rparr>)) = Map.empty
               \<and> roster (run es (s\<lparr>alerts := alerts s @ [mic_alert]\<rparr>)) (uid_of u) = None
               \<and> sent (run es (s\<lparr>alerts := alerts s @ [mic_alert]\<rparr>)) = sent s)"
    using run_never_joined [of "s\<lparr>alerts := alerts s @ [mic_alert]\<rparr>" "uid_of u"] by simp
  then show ?thesis using j by simp
qed

theorem mic_denied_join_stops_witness:
  "\<not> micGranted ex_denied \<and> user (ex_mounted ex_user1) = Some ex_user1
   \<and> truthy (roomId (ex_mounted ex_user1))
   \<and> subscriptions (ex_mounted ex_user1) = {} \<and> pc_store (ex_mounted ex_user1) = []
   \<and> peerConnections (ex_mounted ex_user1) = Map.empty
   \<and> roster (ex_mounted ex_user1) (uid_of ex_user1) = None
   \<and> fst (initLocalStream ex_denied (ex_mounted ex_user1)) = None
   \<and> alerts (joinEffect ex_denied (ex_mounted ex_user1)) = [mic_alert]
   \<and> subscriptions (run ex_events (joinEffect ex_denied (ex_mounted ex_user1))) = {}
   \<and> pc_store (run ex_events (joinEffect ex_denied (ex_mounted ex_user1))) = []
   \<and> roster (run ex_events (joinEffect ex_denied (ex_mounted ex_user1))) (uid_of ex_user1) = None"
proof -
  have h1: "\<not> micGranted ex_denied" by (simp add: ex_denied_def)
  have h2: "user (ex_mounted ex_user1) = Some ex_user1" by (simp add: ex_mounted_def mounted_def)
  have h3: "truthy (roomId (ex_mounted ex_user1))"
    by (simp add: ex_mounted_def mounted_def truthy_def)
  have h4: "subscriptions (ex_mounted ex_user1) = {} \<and> pc_store (ex_mounted ex_user1) = []
     \<and> peerConnections (ex_mounted ex_user1) = Map.empty
     \<and> roster (ex_mounted ex_user1) (uid_of ex_user1) = None"
    by (simp add: ex_mounted_def mounted_def)
  note inst = mic_denied_join_stops [OF h1 h2 h3]
  have a: "fst (initLocalStream ex_denied (ex_mounted ex_user1)) = None"
    using inst by blast
  have b: "joinEffect ex_denied (ex_mounted ex_user1) =
      (ex_mounted ex_user1)\<lparr>alerts := alerts (ex_mounted ex_user1) @ [mic_alert]\<rparr>"
    using inst by blast
  have al: "alerts (ex_mounted ex_user1) = []" by (simp add: ex_mounted_def mounted_def)
  have b': "alerts (joinEffect ex_denied (ex_mounted ex_user1)) = [mic_alert]"
    by (simp add: b al)
  have c: "subscriptions (run ex_events (joinEffect ex_denied (ex_mounted ex_user1))) = {}
   \<and> pc_store (run ex_events (joinEffect ex_denied (ex_mounted ex_user1))) = []
   \<and> roster (run ex_events (joinEffect ex_denied (ex_mounted ex_user1))) (uid_of ex_user1) = None"
    using inst h4 by blast
  show ?thesis using h1 h2 h3 h4 a b' c by blast
qed

subsection \<open>C10: muting\<close>




lemma toggleMute_outside_room:
  assumes "localStreamRef s = Some str" "getAudioTracks (track_store s) str = t # ts"
    "user s = None \<or> \<not> truthy (roomId s)"
  shows "toggleMute s =
     s\<lparr>track_store := (track_store s)[t := (track_store s ! t)\<lparr>enabled := \<not> enabled (track_store s ! t)\<rparr>],
       isMuted := enabled (track_store s ! t)\<rparr>"
  using assms by (auto simp: toggleMute_def Let_def split: option.splits)



subsection \<open>C7: the enhanced audio graph\<close>

text \<open>
  Claim C7 as stated fails: with the preset \<open>balanced\<close> and \<open>useRNNoise\<close> off the build
  is the clean mode, where the source is connected to the destination itself and nothing
  feeds the compressor.
\<close>

theorem enhanced_mode_counterexample:
  "audioQuality ex_balanced_off = Some Balanced
   \<and> \<not> enhanced_topology (audio_graph ex_balanced_off ex_granted)
   \<and> (Source, Destination) \<in> set (audio_graph ex_balanced_off ex_granted)
   \<and> (RNNoise, Compressor) \<notin> set (audio_graph ex_balanced_off ex_granted)"
  by (simp add: ex_balanced_off_def ex_granted_def audio_graph_def enhanced_topology_def
        monitor_edges_def Let_def)

text \<open>
  The other way out of the enhanced mode is the \<open>catch\<close> branch: when the worklet node
  cannot be made, the graph is the compression-only fallback.
\<close>

lemma fallback_graph_example:
  "audio_graph ex_balanced_on ex_no_worklet = monitor_edges @ fallback_edges
   \<and> \<not> enhanced_topology (audio_graph ex_balanced_on ex_no_worklet)"
  by (simp add: ex_balanced_on_def ex_no_worklet_def audio_graph_def enhanced_topology_def
        monitor_edges_def fallback_edges_def Let_def)

text \<open>
  Claim C7, amended. For every build with \<open>useRNNoise\<close> on and the preset \<open>balanced\<close>,
  \<open>professional\<close> or \<open>ultra\<close>, in which the worklet node of the noise suppressor can be
  made, the source is routed through the noise suppressor (after a high-pass stage when
  the chain has one) and the compressor into the destination, and the source is not
  connected to the destination itself: the graph is the monitor path and the
  professional chain.
\<close>

theorem enhanced_mode_topology:
  assumes "useRNNoise opts"
    and "audioQuality opts = Some Balanced \<or> audioQuality opts = Some Professional
         \<or> audioQuality opts = Some Ultra"
    and "workletNodeOk env"
  shows "enhanced_topology (audio_graph opts env)
       \<and> audio_graph opts env =
           monitor_edges @ connectWithRNNoise (chainHighPass env) Source RNNoise Destination"
  using assms
  by (auto simp: audio_graph_def enhanced_topology_def monitor_edges_def connectWithRNNoise_def
        Let_def)

theorem enhanced_mode_topology_witness:
  "useRNNoise ex_balanced_on \<and> audioQuality ex_balanced_on = Some Balanced
   \<and> workletNodeOk ex_granted
   \<and> enhanced_topology (audio_graph ex_balanced_on ex_granted)
   \<and> audio_graph ex_balanced_on ex_granted =
       monitor_edges @ connectWithRNNoise (chainHighPass ex_granted) Source RNNoise Destination"
proof -
  have h1: "useRNNoise ex_balanced_on" by (simp add: ex_balanced_on_def)
  have h2: "audioQuality ex_balanced_on = Some Balanced" by (simp add: ex_balanced_on_def)
  have h2': "audioQuality ex_balanced_on = Some Balanced \<or> audioQuality ex_balanced_on = Some Professional
         \<or> audioQuality ex_balanced_on = Some Ultra" using h2 by simp
  have h3: "workletNodeOk ex_granted" by (simp add: ex_granted_def)
  show ?thesis using h1 h2 h3 enhanced_mode_topology [OF h1 h2' h3] by blast
qed

subsection \<open>C8: the voice level\<close>











end
